theory Spec2Isabelle
  imports Complex_Main
begin

section \<open>Numbers, angles and small vectors\<close>

text \<open>
  The source is \<^verbatim>\<open>src/mpc_view/view/scene/items/car.py\<close>, class \<^verbatim>\<open>CarModel\<close>.
  Python floats, Qt's \<^verbatim>\<open>qreal\<close> and numpy's \<^verbatim>\<open>float64\<close> are modelled as the
  reals: every statement below is about the arithmetic the code writes down, not about
  the rounding of its floating-point evaluation.
\<close>

text \<open>\<^verbatim>\<open>math.radians\<close> and \<^verbatim>\<open>math.degrees\<close>.\<close>

definition radians :: "real \<Rightarrow> real" where
  "radians d = d * (pi / 180)"

definition degrees :: "real \<Rightarrow> real" where
  "degrees r = r * (180 / pi)"

type_synonym point = "real \<times> real"

text \<open>The numpy array \<^verbatim>\<open>[x, y, heading, trailer_heading]\<close> of \<^verbatim>\<open>predict\<close> and \<^verbatim>\<open>move\<close>.\<close>

type_synonym vec4 = "real \<times> real \<times> real \<times> real"

datatype exn = ValueError | IndexError | OtherException

text \<open>What a call does: it returns a value or raises.\<close>

datatype 'a outcome = Returned 'a | Raised exn

text \<open>
  \<^verbatim>\<open>a[1]\<close> on a sequence: Python raises \<^verbatim>\<open>IndexError\<close> when the sequence has fewer than
  two elements.
\<close>

fun index1 :: "'a list \<Rightarrow> exn + 'a" where
  "index1 (a # b # rest) = Inr b"
| "index1 rest = Inl IndexError"

text \<open>\<^verbatim>\<open>a[:4] * dt\<close> on a one-dimensional array: the first four elements, each times \<^verbatim>\<open>dt\<close>.\<close>

definition slice4_times :: "real list \<Rightarrow> real \<Rightarrow> real list" where
  "slice4_times a dt = map (\<lambda>v. v * dt) (take 4 a)"

text \<open>
  \<^verbatim>\<open>state += d\<close> for \<^verbatim>\<open>state\<close> of shape (4,): numpy adds elementwise when \<^verbatim>\<open>d\<close> has four
  elements, broadcasts a single element, and raises \<^verbatim>\<open>ValueError\<close> for every other
  length.
\<close>

fun iadd :: "vec4 \<Rightarrow> real list \<Rightarrow> exn + vec4" where
  "iadd (a, b, c, d) [p, q, r, s] = Inr (a + p, b + q, c + r, d + s)"
| "iadd (a, b, c, d) [p] = Inr (a + p, b + p, c + p, d + p)"
| "iadd state d = Inl ValueError"

section \<open>The scene items\<close>

text \<open>\<^verbatim>\<open>QRectF\<close>: \<^verbatim>\<open>setWidth\<close> replaces the width and keeps the other three.\<close>

record QRectF =
  rect_x :: real
  rect_y :: real
  width :: real
  height :: real

definition setWidth :: "real \<Rightarrow> QRectF \<Rightarrow> QRectF" where
  "setWidth w r = r\<lparr>width := w\<rparr>"

text \<open>
  A child item (\<^verbatim>\<open>QGraphicsRectItem\<close>, \<^verbatim>\<open>QGraphicsEllipseItem\<close>): its rectangle, its
  position and its rotation in degrees. Qt stores all three as they are given; pens and
  brushes carry no behaviour and are left out.
\<close>

record item =
  rect :: QRectF
  pos :: point
  rotation :: real

definition new_item :: "real \<Rightarrow> real \<Rightarrow> real \<Rightarrow> real \<Rightarrow> item" where
  "new_item x y w h =
     \<lparr>rect = \<lparr>rect_x = x, rect_y = y, width = w, height = h\<rparr>, pos = (0, 0), rotation = 0\<rparr>"

definition setPos :: "real \<Rightarrow> real \<Rightarrow> item \<Rightarrow> item" where
  "setPos x y i = i\<lparr>pos := (x, y)\<rparr>"

definition setRect :: "real \<Rightarrow> real \<Rightarrow> real \<Rightarrow> real \<Rightarrow> item \<Rightarrow> item" where
  "setRect x y w h i = i\<lparr>rect := \<lparr>rect_x = x, rect_y = y, width = w, height = h\<rparr>\<rparr>"

definition setRotation :: "real \<Rightarrow> item \<Rightarrow> item" where
  "setRotation a i = i\<lparr>rotation := a\<rparr>"

section \<open>The solver object\<close>

text \<open>
  \<^verbatim>\<open>mpc_casadi.MPCCasadi(steps, max_iter, soft_constrain, circles_num, path_len)\<close>: the
  object holds its construction parameters. \<open>obj_id\<close> is the identity of the Python
  object, chosen by the allocation: two instances built from equal parameters are still
  two instances.
\<close>

record mpc_casadi =
  obj_id :: nat
  steps :: int
  max_iter :: int
  soft_constrain :: bool
  circles_num :: int
  path_len :: int

definition MPCCasadi :: "nat \<Rightarrow> int \<Rightarrow> int \<Rightarrow> bool \<Rightarrow> int \<Rightarrow> int \<Rightarrow> mpc_casadi" where
  "MPCCasadi oid st mi sc cn pl =
     \<lparr>obj_id = oid, steps = st, max_iter = mi, soft_constrain = sc, circles_num = cn,
      path_len = pl\<rparr>"

type_synonym solution = "vec4 list \<times> real list"

text \<open>The sixteen positional arguments of \<^verbatim>\<open>optimize_controls\<close>, in the order of the call.\<close>

record opt_args =
  arg_dt :: real
  arg_path :: "point list"
  arg_state :: vec4
  arg_steering :: real
  arg_speed :: real
  arg_wheel_base :: real
  arg_max_rate :: real
  arg_max_angle :: real
  arg_max_trailer_angle :: real
  arg_trailer_len :: real
  arg_trailer_offset :: real
  arg_ctrl_point :: point
  arg_xtrack_weight :: real
  arg_heading_weight :: real
  arg_circles :: "(real \<times> real \<times> real) list"
  arg_radius :: real

text \<open>
  \<^verbatim>\<open>MPCCasadi.optimize_controls\<close> lives in the module \<^verbatim>\<open>mpc.mpc_casadi\<close>, outside the
  source; the car only calls it. It is a parameter of the model: a function from the
  solver object and the arguments to the solution or to the exception it raises.
\<close>

type_synonym solver = "mpc_casadi \<Rightarrow> opt_args \<Rightarrow> exn + solution"

text \<open>
  \<^verbatim>\<open>MPCBlackBox.trailer_model(state, speed, steering_angle, wheel_base, trailer_len,
  trailer_offset)\<close> is called by \<^verbatim>\<open>move\<close> and returns a one-dimensional array.
\<close>

type_synonym model = "vec4 \<Rightarrow> real \<Rightarrow> real \<Rightarrow> real \<Rightarrow> real \<Rightarrow> real \<Rightarrow> real list"

section \<open>The car\<close>

definition PERIOD :: real where "PERIOD = 10"
definition MAX_ANGLE :: real where "MAX_ANGLE = radians 25"
definition MAX_RATE :: real where "MAX_RATE = radians 30"
definition MAX_TRAILER_ANGLE :: real where "MAX_TRAILER_ANGLE = radians 30"
definition WIDTH :: real where "WIDTH = 3"
definition WHEEL_BASE :: real where "WHEEL_BASE = 5"
definition TRAILER_WIDTH :: real where "TRAILER_WIDTH = 2"
definition WHEEL_LEN :: real where "WHEEL_LEN = 1"
definition WHEEL_WIDTH :: real where "WHEEL_WIDTH = 3 / 10"
definition TRAILER_LEN :: real where "TRAILER_LEN = 5"
definition TRAILER_OFFSET :: real where "TRAILER_OFFSET = 0"
definition TRAILER_CTRL_POINT :: point where "TRAILER_CTRL_POINT = (0, 3)"
definition RADIUS :: real where "RADIUS = 5"
definition SPEED :: real where "SPEED = 5"
definition XTRACK_WEIGHT :: real where "XTRACK_WEIGHT = 1"
definition HEADING_WEIGHT :: real where "HEADING_WEIGHT = 30"
definition DT :: real where "DT = 1 / 10"
definition CTRL_POINT_RADIUS :: real where "CTRL_POINT_RADIUS = 3 / 10"

text \<open>
  The attributes of a \<^verbatim>\<open>CarModel\<close>: the group's own position and rotation (degrees), the
  speed, the child items and the solver. The rotation of \<open>trailer\<close> is relative to the
  car, as the trailer is a child of the group.
\<close>

record car =
  car_pos :: point
  car_rotation :: real
  speed :: real
  body :: item
  front_left_wheel :: item
  front_right_wheel :: item
  rear_left_wheel :: item
  rear_right_wheel :: item
  trailer :: item
  trailer_left_wheel :: item
  trailer_right_wheel :: item
  circle :: item
  ctrl_point :: item
  mpc :: mpc_casadi

text \<open>\<^verbatim>\<open>__init__\<close>; the parameter \<^verbatim>\<open>dt\<close> is accepted and not used.\<close>

definition CarModel_init :: "nat \<Rightarrow> int \<Rightarrow> int \<Rightarrow> real \<Rightarrow> int \<Rightarrow> int \<Rightarrow> bool \<Rightarrow> car" where
  "CarModel_init oid cn pl dt st mi sc =
     (let wheel = new_item (- WHEEL_LEN / 2) (- WHEEL_WIDTH / 2) WHEEL_LEN WHEEL_WIDTH in
      \<lparr>car_pos = (0, 0),
       car_rotation = 0,
       speed = SPEED,
       body = new_item 0 (- WIDTH / 2) WHEEL_BASE WIDTH,
       front_left_wheel = setPos WHEEL_BASE (- WIDTH / 2) wheel,
       front_right_wheel = setPos WHEEL_BASE (WIDTH / 2) wheel,
       rear_left_wheel = setPos 0 (- WIDTH / 2) wheel,
       rear_right_wheel = setPos 0 (WIDTH / 2) wheel,
       trailer = new_item (- TRAILER_LEN) (- TRAILER_WIDTH / 2) TRAILER_LEN TRAILER_WIDTH,
       trailer_left_wheel = setPos (- TRAILER_LEN) (- TRAILER_WIDTH / 2) wheel,
       trailer_right_wheel = setPos (- TRAILER_LEN) (TRAILER_WIDTH / 2) wheel,
       circle = new_item (- RADIUS) (- RADIUS) (2 * RADIUS) (2 * RADIUS),
       ctrl_point =
         setPos (fst TRAILER_CTRL_POINT - TRAILER_LEN) (snd TRAILER_CTRL_POINT)
           (new_item (- CTRL_POINT_RADIUS) (- CTRL_POINT_RADIUS) (2 * CTRL_POINT_RADIUS)
              (2 * CTRL_POINT_RADIUS)),
       mpc = MPCCasadi oid st mi sc cn pl\<rparr>)"

definition set_wheel_base :: "real \<Rightarrow> car \<Rightarrow> car" where
  "set_wheel_base wheel_base self =
     self\<lparr>body := (body self)\<lparr>rect := setWidth wheel_base (rect (body self))\<rparr>,
          front_left_wheel := setPos wheel_base (- WIDTH / 2) (front_left_wheel self),
          front_right_wheel := setPos wheel_base (WIDTH / 2) (front_right_wheel self)\<rparr>"

definition get_wheel_base :: "car \<Rightarrow> real" where
  "get_wheel_base self = width (rect (body self))"

definition set_trailer_len :: "real \<Rightarrow> car \<Rightarrow> car" where
  "set_trailer_len trailer_len self =
     self\<lparr>trailer :=
            setRect (- trailer_len) (- TRAILER_WIDTH / 2) trailer_len TRAILER_WIDTH
              (trailer self),
          trailer_left_wheel :=
            setPos (- trailer_len) (- TRAILER_WIDTH / 2) (trailer_left_wheel self),
          trailer_right_wheel :=
            setPos (- trailer_len) (TRAILER_WIDTH / 2) (trailer_right_wheel self)\<rparr>"

definition get_trailer_len :: "car \<Rightarrow> real" where
  "get_trailer_len self = width (rect (trailer self))"

text \<open>\<^verbatim>\<open>rebuild_mpc\<close>: a new solver object replaces the old one; \<^verbatim>\<open>dt\<close> is not used.\<close>

definition rebuild_mpc :: "nat \<Rightarrow> int \<Rightarrow> int \<Rightarrow> real \<Rightarrow> int \<Rightarrow> int \<Rightarrow> bool \<Rightarrow> car \<Rightarrow> car" where
  "rebuild_mpc oid cn pl dt st mi sc self = self\<lparr>mpc := MPCCasadi oid st mi sc cn pl\<rparr>"

text \<open>
  The state vector that \<^verbatim>\<open>predict\<close> (lines 266 to 271) and \<^verbatim>\<open>move\<close> (lines 318 to 323)
  both read off the scene: position, heading in radians, and the trailer's absolute
  heading in radians.
\<close>

definition current_state :: "car \<Rightarrow> vec4" where
  "current_state self =
     (let heading = car_rotation self in
      (fst (car_pos self), snd (car_pos self), radians heading,
       radians (heading + rotation (trailer self))))"

text \<open>The argument list that \<^verbatim>\<open>predict\<close> hands to \<^verbatim>\<open>optimize_controls\<close>.\<close>

definition predict_args :: "car \<Rightarrow> point list \<Rightarrow> (real \<times> real \<times> real) list \<Rightarrow> opt_args" where
  "predict_args self path circles_obstacle =
     (let state = current_state self;
          ctrl_point_pos = pos (ctrl_point self);
          trailer_len = width (rect (trailer self))
      in \<lparr>arg_dt = DT,
          arg_path = path,
          arg_state = state,
          arg_steering = radians (rotation (front_left_wheel self)),
          arg_speed = speed self,
          arg_wheel_base = width (rect (body self)),
          arg_max_rate = MAX_RATE,
          arg_max_angle = MAX_ANGLE,
          arg_max_trailer_angle = MAX_TRAILER_ANGLE,
          arg_trailer_len = trailer_len,
          arg_trailer_offset = TRAILER_OFFSET,
          arg_ctrl_point = (trailer_len - fst ctrl_point_pos, snd ctrl_point_pos),
          arg_xtrack_weight = XTRACK_WEIGHT,
          arg_heading_weight = HEADING_WEIGHT,
          arg_circles = circles_obstacle,
          arg_radius = width (rect (circle self)) / 2\<rparr>)"

definition predict :: "solver \<Rightarrow> car \<Rightarrow> point list \<Rightarrow> (real \<times> real \<times> real) list \<Rightarrow> exn + solution" where
  "predict optimize_controls self path circles_obstacle =
     optimize_controls (mpc self) (predict_args self path circles_obstacle)"

text \<open>The five setter calls that end \<^verbatim>\<open>move\<close> (lines 339 to 343).\<close>

definition apply_state :: "real \<Rightarrow> vec4 \<Rightarrow> car \<Rightarrow> car" where
  "apply_state steering_angle state self =
     (case state of (s0, s1, s2, s3) \<Rightarrow>
        self\<lparr>front_left_wheel := setRotation (degrees steering_angle) (front_left_wheel self),
             front_right_wheel := setRotation (degrees steering_angle) (front_right_wheel self),
             car_pos := (s0, s1),
             car_rotation := degrees s2,
             trailer := setRotation (degrees (s3 - s2)) (trailer self)\<rparr>)"

text \<open>
  \<^verbatim>\<open>move\<close>. Only a \<^verbatim>\<open>ValueError\<close> of the \<^verbatim>\<open>try\<close> block is caught (the method then returns
  \<^verbatim>\<open>None\<close>); any other exception, and any exception after the block, leaves the method.
  The result pairs what the call does with the car afterwards.
\<close>

definition move ::
  "model \<Rightarrow> solver \<Rightarrow> car \<Rightarrow> real \<Rightarrow> point list \<Rightarrow> (real \<times> real \<times> real) list
     \<Rightarrow> solution option outcome \<times> car" where
  "move trailer_model optimize_controls self dt line circles_obstacle =
     (case predict optimize_controls self line circles_obstacle of
        Inl ValueError \<Rightarrow> (Returned None, self)
      | Inl e \<Rightarrow> (Raised e, self)
      | Inr solution \<Rightarrow>
          (let state = current_state self in
           case index1 (snd solution) of
             Inl e \<Rightarrow> (Raised e, self)
           | Inr steering_angle \<Rightarrow>
               (case iadd state
                       (slice4_times
                          (trailer_model state (speed self) steering_angle
                             (width (rect (body self))) (width (rect (trailer self))) 0)
                          dt) of
                  Inl e \<Rightarrow> (Raised e, self)
                | Inr state' \<Rightarrow>
                    (Returned (Some solution), apply_state steering_angle state' self))))"

section \<open>A sample kinematic model\<close>

text \<open>
  \<^verbatim>\<open>MPCBlackBox.trailer_model\<close> belongs to the module \<^verbatim>\<open>mpc.mpc_back_box\<close>, which is not
  among the sources, so \<open>move\<close> takes the model as a parameter and every theorem about
  \<open>move\<close> holds for any model. The examples need one to run on. This sample has the
  position rate \<open>v * (cos heading, sin heading)\<close> and the tractor heading rate
  \<open>(v / wheel_base) * tan steering_angle\<close> of section 4.1 of the specification, \<open>v\<close>
  being the speed; the specification gives no formula for the trailer's heading rate, and
  the sample keeps it at 0. It stands for no statement about the absent function.
\<close>

definition sample_model :: model where
  "sample_model state v steering_angle wheel_base trailer_len trailer_offset =
     (case state of (x, y, heading, trailer_heading) \<Rightarrow>
        [v * cos heading, v * sin heading, v / wheel_base * tan steering_angle, 0])"

section \<open>What the specification calls one Euler step\<close>

text \<open>
  The derivative that \<^verbatim>\<open>move\<close> asks of the kinematic model: the model applied to the
  state read off the scene before the update, the car's speed, the given steering angle,
  the wheel base, the trailer length and hitch offset 0 (lines 331 to 337).
\<close>

definition derivative_at :: "model \<Rightarrow> car \<Rightarrow> real \<Rightarrow> real list" where
  "derivative_at tm self steering_angle =
     tm (current_state self) (speed self) steering_angle (get_wheel_base self)
       (get_trailer_len self) 0"

text \<open>
  Section 4.4 of the specification, step 4, in its own words: the old state plus \<open>dt\<close>
  times the derivative \<open>d\<close>, component by component.
\<close>

definition euler_step :: "vec4 \<Rightarrow> real list \<Rightarrow> real \<Rightarrow> vec4" where
  "euler_step state d dt =
     (case state of (x, y, h, t) \<Rightarrow>
        (x + dt * d ! 0, y + dt * d ! 1, h + dt * d ! 2, t + dt * d ! 3))"

text \<open>
  Sections 3 and 4.2 of the specification, in their words: the control sequence of a
  solution carries a bookkeeping offset, its initial entry being pinned to the steering
  angle that is currently applied; the predicted controls are the entries after it, and
  the first predicted control is the first of those, when there is one.
\<close>

definition predicted_controls :: "solution \<Rightarrow> real list" where
  "predicted_controls sol = tl (snd sol)"

definition first_predicted_control :: "solution \<Rightarrow> real option" where
  "first_predicted_control sol =
     (case predicted_controls sol of [] \<Rightarrow> None | c # rest \<Rightarrow> Some c)"

section \<open>Example inputs\<close>

text \<open>
  A solver that returns a given solution, one that raises a given exception, and one
  whose solution reports, as its entry at index 0, the timestep it was called with.
\<close>

definition solver_returning :: "solution \<Rightarrow> solver" where
  "solver_returning sol m a = Inr sol"

definition solver_raising :: "exn \<Rightarrow> solver" where
  "solver_raising e m a = Inl e"

definition solver_reporting_dt :: solver where
  "solver_reporting_dt m a = Inr ([], [arg_dt a, 0])"

text \<open>A car as the constructor leaves it, and the same car turned to 350 degrees.\<close>

definition car0 :: car where
  "car0 = CarModel_init 0 1 2 (1 / 10) 10 100 False"

definition car_350 :: car where
  "car_350 = car0\<lparr>car_rotation := 350\<rparr>"

text \<open>
  Solutions for the car as the constructor leaves it (steering 0): straight ahead; two
  that start from the applied steering 0, steer to 1 / 40 radian next and differ in
  everything after that; and, for the car at 350 degrees, a turn with 45 degrees at
  index 1.
\<close>

definition sol_straight :: solution where
  "sol_straight = ([(0, 0, 0, 0), (1 / 2, 0, 0, 0)], [0, 0])"

definition sol_steer :: solution where
  "sol_steer = ([(0, 0, 0, 0), (1 / 2, 0, 0, 0), (1, 0, 0, 0)], [0, 1 / 40, 1 / 20])"

definition sol_steer_other :: solution where
  "sol_steer_other = ([(0, 0, 0, 0), (1 / 2, 0, 0, 0), (1, 0, 1 / 100, 0)], [0, 1 / 40, 0])"

definition sol_turn :: solution where
  "sol_turn = ([(0, 0, 0, 0), (1 / 2, 0, 1 / 10, 0)], [0, pi / 4])"

section \<open>Angles and arrays\<close>

lemma radians_degrees: "radians (degrees a) = a"
  by (simp add: radians_def degrees_def)

lemma degrees_radians: "degrees (radians a) = a"
  by (simp add: radians_def degrees_def)

lemma radians_add: "radians (a + b) = radians a + radians b"
  by (simp add: radians_def algebra_simps)

lemma degrees_add: "degrees (a + b) = degrees a + degrees b"
  by (simp add: degrees_def distrib_right add_divide_distrib)

lemma index1_Inr: "index1 xs = Inr a \<longleftrightarrow> 2 \<le> length xs \<and> a = xs ! 1"
  by (cases xs rule: index1.cases) auto

lemma take4: "4 \<le> length d \<Longrightarrow> take 4 d = [d ! 0, d ! 1, d ! 2, d ! 3]"
proof -
  assume "4 \<le> length d"
  then obtain a b c e rest where "d = a # b # c # e # rest"
    by (cases d; simp; cases "tl d"; simp; cases "tl (tl d)"; simp;
        cases "tl (tl (tl d))"; simp)
  then show ?thesis by simp
qed

lemma iadd_slice4:
  assumes "4 \<le> length d"
  shows "iadd state (slice4_times d dt) = Inr (euler_step state d dt)"
proof -
  obtain x y h t where s: "state = (x, y, h, t)" by (cases state) auto
  show ?thesis
    by (simp add: s slice4_times_def take4[OF assms] euler_step_def mult.commute)
qed

section \<open>What the setters of \<open>move\<close> store\<close>

lemma current_state_apply_state: "current_state (apply_state a s self) = s"
  by (cases s)
    (simp add: current_state_def apply_state_def setRotation_def radians_add radians_degrees)

lemma apply_state_wheels:
  "rotation (front_left_wheel (apply_state a s self)) = degrees a"
  "rotation (front_right_wheel (apply_state a s self)) = degrees a"
  by (cases s; simp add: apply_state_def setRotation_def)+

lemma apply_state_headings:
  "car_rotation (apply_state a (s0, s1, s2, s3) self) = degrees s2"
  "rotation (trailer (apply_state a (s0, s1, s2, s3) self)) = degrees (s3 - s2)"
  by (simp_all add: apply_state_def setRotation_def)

section \<open>The paths through \<open>move\<close>\<close>

text \<open>A call that returns a solution went through every step of the method.\<close>

lemma move_returned:
  assumes "fst (move tm oc self dt line obs) = Returned (Some sol)"
  shows "oc (mpc self) (predict_args self line obs) = Inr sol
     \<and> 2 \<le> length (snd sol)
     \<and> (\<exists>state'. iadd (current_state self)
            (slice4_times (derivative_at tm self (snd sol ! 1)) dt) = Inr state'
          \<and> snd (move tm oc self dt line obs) = apply_state (snd sol ! 1) state' self)"
proof (cases "oc (mpc self) (predict_args self line obs)")
  case (Inl e)
  with assms show ?thesis
    by (cases e) (simp_all add: move_def predict_def)
next
  case (Inr s)
  show ?thesis
  proof (cases "index1 (snd s)")
    case (Inl e)
    with Inr assms show ?thesis
      by (simp add: move_def predict_def)
  next
    case a: (Inr a)
    then have len: "2 \<le> length (snd s)" and a_eq: "a = snd s ! 1"
      by (simp_all add: index1_Inr)
    show ?thesis
    proof (cases "iadd (current_state self) (slice4_times (derivative_at tm self a) dt)")
      case (Inl e)
      with Inr a assms show ?thesis
        by (simp add: move_def predict_def derivative_at_def get_wheel_base_def
            get_trailer_len_def)
    next
      case st: (Inr state')
      with Inr a assms have "s = sol"
        by (simp add: move_def predict_def derivative_at_def get_wheel_base_def
            get_trailer_len_def)
      with Inr a st len a_eq show ?thesis
        by (simp add: move_def predict_def derivative_at_def get_wheel_base_def
            get_trailer_len_def)
    qed
  qed
qed

lemma move_euler:
  assumes "fst (move tm oc self dt line obs) = Returned (Some sol)"
    and "4 \<le> length (derivative_at tm self (snd sol ! 1))"
  shows "snd (move tm oc self dt line obs) =
     apply_state (snd sol ! 1)
       (euler_step (current_state self) (derivative_at tm self (snd sol ! 1)) dt) self"
  using move_returned[OF assms(1)] iadd_slice4[OF assms(2)] by auto

text \<open>
  Conversely the method returns the solution whenever the solver does, the control
  sequence has an entry at index 1 and the model yields at least four components.
\<close>

lemma move_succeeds:
  assumes "predict oc self line obs = Inr sol"
    and "2 \<le> length (snd sol)"
    and "4 \<le> length (derivative_at tm self (snd sol ! 1))"
  shows "move tm oc self dt line obs =
      (Returned (Some sol),
       apply_state (snd sol ! 1)
         (euler_step (current_state self) (derivative_at tm self (snd sol ! 1)) dt) self)"
proof -
  from assms(2) have i: "index1 (snd sol) = Inr (snd sol ! 1)"
    by (simp add: index1_Inr)
  show ?thesis
    using iadd_slice4[OF assms(3), of "current_state self" dt] assms(1) i
    by (simp add: move_def derivative_at_def get_wheel_base_def get_trailer_len_def Let_def)
qed

lemma move_car_cases:
  "snd (move tm oc self dt line obs) = self
   \<or> (\<exists>a s. snd (move tm oc self dt line obs) = apply_state a s self)"
  by (simp add: move_def Let_def split: sum.splits exn.splits) blast

section \<open>The example inputs, evaluated\<close>

lemma car0_fields:
  "car_pos car0 = (0, 0)" "car_rotation car0 = 0" "speed car0 = 5"
  "rotation (trailer car0) = 0" "width (rect (body car0)) = 5"
  "width (rect (trailer car0)) = 5"
  by (simp_all add: car0_def CarModel_init_def Let_def new_item_def SPEED_def
      WHEEL_BASE_def TRAILER_LEN_def)

lemma car0_state: "current_state car0 = (0, 0, 0, 0)"
  by (simp add: current_state_def car0_fields radians_def)

lemma car0_derivative: "derivative_at sample_model car0 0 = [5, 0, 0, 0]"
  by (simp add: derivative_at_def car0_state sample_model_def car0_fields
      get_wheel_base_def get_trailer_len_def)

lemma car0_derivative_steer:
  "derivative_at sample_model car0 (1 / 40) = [5, 0, tan (1 / 40), 0]"
  by (simp add: derivative_at_def car0_state sample_model_def car0_fields
      get_wheel_base_def get_trailer_len_def)

lemma car0_predict: "predict (solver_returning sol) car0 line obs = Inr sol"
  by (simp add: predict_def solver_returning_def)

lemma car0_predict_reporting:
  "predict solver_reporting_dt car0 line obs = Inr ([], [1 / 10, 0])"
  by (simp add: predict_def solver_reporting_dt_def predict_args_def Let_def DT_def)

lemma sol_straight_control: "snd sol_straight ! 1 = 0"
  by (simp add: sol_straight_def)

lemma sol_turn_control: "snd sol_turn ! 1 = pi / 4"
  by (simp add: sol_turn_def)

lemma sol_steer_control: "snd sol_steer ! 1 = 1 / 40" "snd sol_steer_other ! 1 = 1 / 40"
  by (simp_all add: sol_steer_def sol_steer_other_def)

lemma reported_control: "snd (([], [1 / 10, 0]) :: solution) ! 1 = 0"
  by simp

lemma car0_move_straight:
  "move sample_model (solver_returning sol_straight) car0 dt [] [] =
     (Returned (Some sol_straight), apply_state 0 (5 * dt, 0, 0, 0) car0)"
proof -
  have h2: "2 \<le> length (snd sol_straight)" by (simp add: sol_straight_def)
  have h3: "4 \<le> length (derivative_at sample_model car0 (snd sol_straight ! 1))"
    by (simp only: sol_straight_control car0_derivative) simp
  show ?thesis
    by (simp only: move_succeeds[OF car0_predict h2 h3] sol_straight_control car0_derivative
        car0_state euler_step_def) (simp add: mult.commute)
qed

lemma car0_move_steer:
  "move sample_model (solver_returning sol_steer) car0 dt [] [] =
     (Returned (Some sol_steer),
      apply_state (1 / 40) (5 * dt, 0, tan (1 / 40) * dt, 0) car0)"
proof -
  have h2: "2 \<le> length (snd sol_steer)" by (simp add: sol_steer_def)
  have h3: "4 \<le> length (derivative_at sample_model car0 (snd sol_steer ! 1))"
    by (simp only: sol_steer_control car0_derivative_steer) simp
  show ?thesis
    by (simp only: move_succeeds[OF car0_predict h2 h3] sol_steer_control
        car0_derivative_steer car0_state euler_step_def) (simp add: mult.commute)
qed

lemma car0_move_steer_other:
  "move sample_model (solver_returning sol_steer_other) car0 dt [] [] =
     (Returned (Some sol_steer_other),
      apply_state (1 / 40) (5 * dt, 0, tan (1 / 40) * dt, 0) car0)"
proof -
  have h2: "2 \<le> length (snd sol_steer_other)" by (simp add: sol_steer_other_def)
  have h3: "4 \<le> length (derivative_at sample_model car0 (snd sol_steer_other ! 1))"
    by (simp only: sol_steer_control car0_derivative_steer) simp
  show ?thesis
    by (simp only: move_succeeds[OF car0_predict h2 h3] sol_steer_control
        car0_derivative_steer car0_state euler_step_def) (simp add: mult.commute)
qed

text \<open>
  The two steering solutions start from the steering the car has and stay within the
  actuator limits that \<open>predict\<close> hands to the solver.
\<close>

lemma sol_steer_within_limits:
  "hd (snd sol_steer) = arg_steering (predict_args car0 [] [])"
  "\<bar>snd sol_steer ! 1\<bar> \<le> arg_max_angle (predict_args car0 [] [])"
  "\<bar>snd sol_steer ! 1 - hd (snd sol_steer)\<bar> / arg_dt (predict_args car0 [] [])
     \<le> arg_max_rate (predict_args car0 [] [])"
proof -
  show "hd (snd sol_steer) = arg_steering (predict_args car0 [] [])"
    by (simp add: sol_steer_def predict_args_def Let_def car0_def CarModel_init_def
        new_item_def setPos_def radians_def)
  show "\<bar>snd sol_steer ! 1\<bar> \<le> arg_max_angle (predict_args car0 [] [])"
    using pi_ge_two
    by (simp add: sol_steer_def predict_args_def Let_def MAX_ANGLE_def radians_def)
  show "\<bar>snd sol_steer ! 1 - hd (snd sol_steer)\<bar> / arg_dt (predict_args car0 [] [])
     \<le> arg_max_rate (predict_args car0 [] [])"
    using pi_ge_two
    by (simp add: sol_steer_def predict_args_def Let_def MAX_RATE_def DT_def radians_def)
qed

lemma first_predicted_control_index:
  "2 \<le> length (snd sol) \<Longrightarrow> first_predicted_control sol = Some (snd sol ! 1)"
  by (cases "snd sol" rule: index1.cases)
    (simp_all add: first_predicted_control_def predicted_controls_def)

lemma car0_move_reporting:
  "move sample_model solver_reporting_dt car0 dt [] [] =
     (Returned (Some ([], [1 / 10, 0])), apply_state 0 (5 * dt, 0, 0, 0) car0)"
proof -
  have h2: "2 \<le> length (snd (([], [1 / 10, 0]) :: solution))" by simp
  have h3: "4 \<le> length (derivative_at sample_model car0 (snd (([], [1 / 10, 0]) :: solution) ! 1))"
    by (simp only: reported_control car0_derivative) simp
  show ?thesis
    by (simp only: move_succeeds[OF car0_predict_reporting h2 h3] reported_control
        car0_derivative car0_state euler_step_def) (simp add: mult.commute)
qed

lemma car_350_fields:
  "car_pos car_350 = (0, 0)" "car_rotation car_350 = 350" "speed car_350 = 5"
  "rotation (trailer car_350) = 0" "width (rect (body car_350)) = 5"
  "width (rect (trailer car_350)) = 5"
  by (simp_all add: car_350_def car0_fields)

lemma car_350_derivative:
  "derivative_at sample_model car_350 (pi / 4) =
     [5 * cos (radians 350), 5 * sin (radians 350), 1, 0]"
  by (simp add: derivative_at_def current_state_def sample_model_def car_350_fields
      get_wheel_base_def get_trailer_len_def tan_45)

lemma car_350_move:
  "fst (move sample_model (solver_returning sol_turn) car_350 1 [] []) = Returned (Some sol_turn)"
proof -
  have h1: "predict (solver_returning sol_turn) car_350 [] [] = Inr sol_turn"
    by (simp add: predict_def solver_returning_def)
  have h2: "2 \<le> length (snd sol_turn)" by (simp add: sol_turn_def)
  have h3: "4 \<le> length (derivative_at sample_model car_350 (snd sol_turn ! 1))"
    by (simp only: sol_turn_control car_350_derivative) simp
  show ?thesis
    by (simp only: move_succeeds[OF h1 h2 h3] fst_conv)
qed

section \<open>A failed solve\<close>

text \<open>
  C1. If the solve raises a failure (\<^verbatim>\<open>ValueError\<close>, no feasible solution), the tick is a
  no-op on the true state: \<^verbatim>\<open>move\<close> returns no solution (\<^verbatim>\<open>None\<close>), and the car after
  the call is the car before it, so position, tractor heading, trailer heading and applied
  steering angle are all unchanged.
\<close>

theorem move_failure_is_noop:
  assumes "predict oc self line obs = Inl ValueError"
  shows "fst (move tm oc self dt line obs) = Returned None
       \<and> snd (move tm oc self dt line obs) = self"
  using assms by (simp add: move_def)

theorem move_failure_is_noop_witness:
  "predict (solver_raising ValueError) car0 [] [] = Inl ValueError
   \<and> fst (move sample_model (solver_raising ValueError) car0 (1 / 10) [] []) = Returned None
   \<and> snd (move sample_model (solver_raising ValueError) car0 (1 / 10) [] []) = car0"
proof -
  have h: "predict (solver_raising ValueError) car0 [] [] = Inl ValueError"
    by (simp add: predict_def solver_raising_def)
  from move_failure_is_noop[OF h] h show ?thesis by blast
qed

section \<open>A successful tick\<close>

text \<open>
  C2. On a successful tick the new true state is the old state plus \<open>dt\<close> times the
  derivative of the kinematic model, taken at the old state with the newly chosen steering
  angle and the car's speed: one explicit Euler step, the derivative being computed from
  the state as it was before any setter ran. The state is the one the code reads off the
  scene (\<open>current_state\<close>); the model is any function that yields at least the four
  components the code slices.
\<close>

theorem move_is_one_euler_step:
  assumes "fst (move tm oc self dt line obs) = Returned (Some sol)"
    and "4 \<le> length (derivative_at tm self (snd sol ! 1))"
  shows "current_state (snd (move tm oc self dt line obs)) =
     euler_step (current_state self) (derivative_at tm self (snd sol ! 1)) dt"
  by (simp add: move_euler[OF assms] current_state_apply_state)

theorem move_is_one_euler_step_witness:
  "fst (move sample_model (solver_returning sol_straight) car0 (1 / 10) [] [])
     = Returned (Some sol_straight)
   \<and> 4 \<le> length (derivative_at sample_model car0 (snd sol_straight ! 1))
   \<and> current_state (snd (move sample_model (solver_returning sol_straight) car0 (1 / 10) [] []))
       = (1 / 2, 0, 0, 0)"
proof -
  have h1: "fst (move sample_model (solver_returning sol_straight) car0 (1 / 10) [] [])
     = Returned (Some sol_straight)"
    by (simp add: car0_move_straight)
  have h2: "4 \<le> length (derivative_at sample_model car0 (snd sol_straight ! 1))"
    by (simp only: sol_straight_control car0_derivative) simp
  from move_is_one_euler_step[OF h1 h2]
  have "current_state (snd (move sample_model (solver_returning sol_straight) car0 (1 / 10) [] []))
       = (1 / 2, 0, 0, 0)"
    by (simp only: sol_straight_control car0_derivative car0_state euler_step_def) simp
  with h1 h2 show ?thesis by blast
qed

text \<open>
  C3. On a successful tick the steering angle that advances the true state and that
  both front wheels show is the first predicted control of the returned solution's
  control sequence: the entry after the initial one, \<^verbatim>\<open>solution[1][1]\<close>. No other
  predicted control, and nothing else of the solution, reaches the car: two solutions
  with the same first predicted control leave the same car.
\<close>

theorem move_applies_first_predicted_control:
  assumes "fst (move tm oc self dt line obs) = Returned (Some sol)"
    and "fst (move tm oc' self dt line obs) = Returned (Some sol')"
    and "first_predicted_control sol' = first_predicted_control sol"
    and "4 \<le> length (derivative_at tm self (snd sol ! 1))"
  shows "first_predicted_control sol = Some (snd sol ! 1)
       \<and> rotation (front_left_wheel (snd (move tm oc self dt line obs))) = degrees (snd sol ! 1)
       \<and> rotation (front_right_wheel (snd (move tm oc self dt line obs))) = degrees (snd sol ! 1)
       \<and> current_state (snd (move tm oc self dt line obs)) =
           euler_step (current_state self) (derivative_at tm self (snd sol ! 1)) dt
       \<and> snd (move tm oc' self dt line obs) = snd (move tm oc self dt line obs)"
proof -
  have f: "first_predicted_control sol = Some (snd sol ! 1)"
    using move_returned[OF assms(1)] by (simp add: first_predicted_control_index)
  have f': "first_predicted_control sol' = Some (snd sol' ! 1)"
    using move_returned[OF assms(2)] by (simp add: first_predicted_control_index)
  from f f' assms(3) have eq: "snd sol' ! 1 = snd sol ! 1"
    by simp
  have d': "4 \<le> length (derivative_at tm self (snd sol' ! 1))"
    using eq assms(4) by simp
  have c: "snd (move tm oc self dt line obs) =
     apply_state (snd sol ! 1)
       (euler_step (current_state self) (derivative_at tm self (snd sol ! 1)) dt) self"
    by (rule move_euler[OF assms(1,4)])
  have c': "snd (move tm oc' self dt line obs) =
     apply_state (snd sol ! 1)
       (euler_step (current_state self) (derivative_at tm self (snd sol ! 1)) dt) self"
    using move_euler[OF assms(2) d'] eq by simp
  from f show ?thesis
    by (simp only: c c' apply_state_wheels current_state_apply_state)
qed

theorem move_applies_first_predicted_control_witness:
  "fst (move sample_model (solver_returning sol_steer) car0 (1 / 10) [] [])
     = Returned (Some sol_steer)
   \<and> fst (move sample_model (solver_returning sol_steer_other) car0 (1 / 10) [] [])
        = Returned (Some sol_steer_other)
   \<and> first_predicted_control sol_steer_other = first_predicted_control sol_steer
   \<and> 4 \<le> length (derivative_at sample_model car0 (snd sol_steer ! 1))
   \<and> first_predicted_control sol_steer = Some (1 / 40)
   \<and> rotation (front_left_wheel
        (snd (move sample_model (solver_returning sol_steer) car0 (1 / 10) [] [])))
        = degrees (1 / 40)
   \<and> rotation (front_right_wheel
        (snd (move sample_model (solver_returning sol_steer) car0 (1 / 10) [] [])))
        = degrees (1 / 40)
   \<and> current_state (snd (move sample_model (solver_returning sol_steer) car0 (1 / 10) [] []))
        = (1 / 2, 0, tan (1 / 40) / 10, 0)
   \<and> snd (move sample_model (solver_returning sol_steer_other) car0 (1 / 10) [] [])
        = snd (move sample_model (solver_returning sol_steer) car0 (1 / 10) [] [])"
proof -
  have h1: "fst (move sample_model (solver_returning sol_steer) car0 (1 / 10) [] [])
      = Returned (Some sol_steer)"
    by (simp add: car0_move_steer)
  have h2: "fst (move sample_model (solver_returning sol_steer_other) car0 (1 / 10) [] [])
      = Returned (Some sol_steer_other)"
    by (simp add: car0_move_steer_other)
  have h3: "first_predicted_control sol_steer_other = first_predicted_control sol_steer"
    by (simp add: first_predicted_control_def predicted_controls_def sol_steer_def
        sol_steer_other_def)
  have h4: "4 \<le> length (derivative_at sample_model car0 (snd sol_steer ! 1))"
    by (simp only: sol_steer_control car0_derivative_steer) simp
  note t = move_applies_first_predicted_control[OF h1 h2 h3 h4]
  have a: "first_predicted_control sol_steer = Some (1 / 40)"
    using t by (simp only: sol_steer_control)
  have b: "rotation (front_left_wheel
      (snd (move sample_model (solver_returning sol_steer) car0 (1 / 10) [] [])))
      = degrees (1 / 40)"
    using t by (simp only: sol_steer_control)
  have c: "rotation (front_right_wheel
      (snd (move sample_model (solver_returning sol_steer) car0 (1 / 10) [] [])))
      = degrees (1 / 40)"
    using t by (simp only: sol_steer_control)
  have d: "current_state (snd (move sample_model (solver_returning sol_steer) car0 (1 / 10) [] []))
        = (1 / 2, 0, tan (1 / 40) / 10, 0)"
    using t by (simp only: sol_steer_control car0_derivative_steer car0_state euler_step_def)
      simp
  from t h1 h2 h3 h4 a b c d show ?thesis by blast
qed

text \<open>
  C4, as the code has it. The Euler step of a tick uses the \<open>dt\<close> its caller supplies; the
  horizon problem of the same tick is handed to the solver with the class constant
  \<^verbatim>\<open>DT\<close>, one tenth of a second, whatever the caller's \<open>dt\<close> is.
\<close>

theorem move_timesteps:
  assumes "fst (move tm oc self dt line obs) = Returned (Some sol)"
    and "4 \<le> length (derivative_at tm self (snd sol ! 1))"
  shows "oc (mpc self) (predict_args self line obs) = Inr sol
       \<and> arg_dt (predict_args self line obs) = 1 / 10
       \<and> current_state (snd (move tm oc self dt line obs)) =
           euler_step (current_state self) (derivative_at tm self (snd sol ! 1)) dt"
proof -
  have "arg_dt (predict_args self line obs) = 1 / 10"
    by (simp add: predict_args_def Let_def DT_def)
  with move_returned[OF assms(1)] move_euler[OF assms] show ?thesis
    by (simp add: current_state_apply_state)
qed

theorem move_timesteps_witness:
  "fst (move sample_model solver_reporting_dt car0 (1 / 2) [] [])
     = Returned (Some ([], [1 / 10, 0]))
   \<and> 4 \<le> length (derivative_at sample_model car0 (snd (([], [1 / 10, 0]) :: solution) ! 1))
   \<and> solver_reporting_dt (mpc car0) (predict_args car0 [] []) = Inr ([], [1 / 10, 0])
   \<and> arg_dt (predict_args car0 [] []) = 1 / 10
   \<and> current_state (snd (move sample_model solver_reporting_dt car0 (1 / 2) [] []))
       = (5 / 2, 0, 0, 0)"
proof -
  have h1: "fst (move sample_model solver_reporting_dt car0 (1 / 2) [] [])
      = Returned (Some ([], [1 / 10, 0]))"
    by (simp add: car0_move_reporting)
  have h2: "4 \<le> length (derivative_at sample_model car0 (snd (([], [1 / 10, 0]) :: solution) ! 1))"
    by (simp only: reported_control car0_derivative) simp
  note t = move_timesteps[OF h1 h2]
  have "current_state (snd (move sample_model solver_reporting_dt car0 (1 / 2) [] []))
       = (5 / 2, 0, 0, 0)"
    using t by (simp only: reported_control car0_derivative car0_state euler_step_def) simp
  with t h1 h2 show ?thesis by blast
qed

text \<open>
  A tick called with \<open>dt = 1 / 2\<close>: the solver that reports the timestep it was given
  reports \<open>1 / 10\<close>.
\<close>

theorem solver_timestep_counterexample:
  "fst (move sample_model solver_reporting_dt car0 (1 / 2) [] [])
     = Returned (Some ([], [1 / 10, 0]))
   \<and> arg_dt (predict_args car0 [] []) \<noteq> 1 / 2"
  by (simp add: car0_move_reporting predict_args_def Let_def DT_def)

text \<open>
  C7. On a successful tick \<^verbatim>\<open>move\<close> returns the solution of the solve as a whole, the
  complete state sequence and the complete control sequence, not the one control it
  applied.
\<close>

theorem move_returns_full_solution:
  assumes "predict oc self line obs = Inr sol"
    and "2 \<le> length (snd sol)"
    and "4 \<le> length (derivative_at tm self (snd sol ! 1))"
  shows "fst (move tm oc self dt line obs) = Returned (Some sol)"
  by (simp add: move_succeeds[OF assms])

theorem move_returns_full_solution_witness:
  "predict (solver_returning sol_straight) car0 [] [] = Inr sol_straight
   \<and> 2 \<le> length (snd sol_straight)
   \<and> 4 \<le> length (derivative_at sample_model car0 (snd sol_straight ! 1))
   \<and> fst (move sample_model (solver_returning sol_straight) car0 (1 / 10) [] [])
       = Returned (Some ([(0, 0, 0, 0), (1 / 2, 0, 0, 0)], [0, 0]))"
proof -
  have h2: "2 \<le> length (snd sol_straight)"
    by (simp add: sol_straight_def)
  have h3: "4 \<le> length (derivative_at sample_model car0 (snd sol_straight ! 1))"
    by (simp only: sol_straight_control car0_derivative) simp
  from move_returns_full_solution[OF car0_predict h2 h3, of "1 / 10" "[]" "[]"]
  have "fst (move sample_model (solver_returning sol_straight) car0 (1 / 10) [] [])
       = Returned (Some ([(0, 0, 0, 0), (1 / 2, 0, 0, 0)], [0, 0]))"
    by (simp add: sol_straight_def)
  with car0_predict h2 h3 show ?thesis by blast
qed

text \<open>
  C8. No wraparound is applied to headings. After a successful tick the stored car
  rotation is the Euler-updated tractor heading converted to degrees, the stored trailer
  rotation (relative to the car) is the difference of the two Euler-updated headings
  converted to degrees, and so the trailer's absolute heading in degrees is its
  Euler-updated heading: no reduction into a bounded range anywhere.
\<close>

theorem headings_stored_unwrapped:
  assumes "fst (move tm oc self dt line obs) = Returned (Some sol)"
    and "4 \<le> length (derivative_at tm self (snd sol ! 1))"
  shows "car_rotation (snd (move tm oc self dt line obs)) =
           degrees (radians (car_rotation self) + dt * derivative_at tm self (snd sol ! 1) ! 2)
       \<and> rotation (trailer (snd (move tm oc self dt line obs))) =
           degrees
             ((radians (car_rotation self + rotation (trailer self))
                 + dt * derivative_at tm self (snd sol ! 1) ! 3)
              - (radians (car_rotation self) + dt * derivative_at tm self (snd sol ! 1) ! 2))
       \<and> car_rotation (snd (move tm oc self dt line obs))
           + rotation (trailer (snd (move tm oc self dt line obs))) =
           degrees (radians (car_rotation self + rotation (trailer self))
                 + dt * derivative_at tm self (snd sol ! 1) ! 3)"
proof -
  have a: "car_rotation (snd (move tm oc self dt line obs)) =
           degrees (radians (car_rotation self) + dt * derivative_at tm self (snd sol ! 1) ! 2)"
    and b: "rotation (trailer (snd (move tm oc self dt line obs))) =
           degrees
             ((radians (car_rotation self + rotation (trailer self))
                 + dt * derivative_at tm self (snd sol ! 1) ! 3)
              - (radians (car_rotation self) + dt * derivative_at tm self (snd sol ! 1) ! 2))"
    by (simp_all only: move_euler[OF assms] euler_step_def current_state_def Let_def prod.case
        apply_state_headings)
  have "degrees x + degrees (y - x) = degrees y" for x y
    by (simp add: degrees_add[symmetric])
  with a b show ?thesis by simp
qed

text \<open>A car at 350 degrees that turns by one radian is stored beyond 360 degrees.\<close>

theorem headings_stored_unwrapped_witness:
  "fst (move sample_model (solver_returning sol_turn) car_350 1 [] []) = Returned (Some sol_turn)
   \<and> 4 \<le> length (derivative_at sample_model car_350 (snd sol_turn ! 1))
   \<and> car_rotation (snd (move sample_model (solver_returning sol_turn) car_350 1 [] []))
       = 350 + 180 / pi
   \<and> 360 < car_rotation (snd (move sample_model (solver_returning sol_turn) car_350 1 [] []))
   \<and> rotation (trailer (snd (move sample_model (solver_returning sol_turn) car_350 1 [] [])))
       = - (180 / pi)"
proof -
  have h2: "4 \<le> length (derivative_at sample_model car_350 (snd sol_turn ! 1))"
    by (simp only: sol_turn_control car_350_derivative) simp
  note t = headings_stored_unwrapped[OF car_350_move h2]
  have a: "car_rotation (snd (move sample_model (solver_returning sol_turn) car_350 1 [] []))
       = 350 + 180 / pi"
    using t by (simp only: sol_turn_control car_350_derivative car_350_fields)
      (simp add: degrees_add degrees_radians, simp add: degrees_def)
  have b: "rotation (trailer (snd (move sample_model (solver_returning sol_turn) car_350 1 [] [])))
       = - (180 / pi)"
    using t by (simp only: sol_turn_control car_350_derivative car_350_fields)
      (simp add: degrees_def)
  have "pi < 18" using pi_less_4 by simp
  then have "10 < 180 / pi"
    by (simp add: pos_less_divide_eq)
  with a have c:
    "360 < car_rotation (snd (move sample_model (solver_returning sol_turn) car_350 1 [] []))"
    by simp
  from car_350_move h2 a b c show ?thesis by blast
qed

text \<open>
  C10. A call to \<^verbatim>\<open>move\<close>, whatever its outcome, leaves the geometry (wheel base, trailer
  length, control point, bounding circle) and the solver object of the car as they were:
  the car afterwards is the car before with at most its position, its rotation, the
  trailer's rotation and the rotations of the two front wheels replaced. (The solver is
  a function here; what \<^verbatim>\<open>optimize_controls\<close> may do inside the solver object is outside
  the source.)
\<close>

theorem move_frame:
  "get_wheel_base (snd (move tm oc self dt line obs)) = get_wheel_base self
   \<and> get_trailer_len (snd (move tm oc self dt line obs)) = get_trailer_len self
   \<and> ctrl_point (snd (move tm oc self dt line obs)) = ctrl_point self
   \<and> circle (snd (move tm oc self dt line obs)) = circle self
   \<and> mpc (snd (move tm oc self dt line obs)) = mpc self
   \<and> (\<exists>p r t wl wr.
        snd (move tm oc self dt line obs) =
          self\<lparr>car_pos := p, car_rotation := r,
               trailer := (trailer self)\<lparr>rotation := t\<rparr>,
               front_left_wheel := (front_left_wheel self)\<lparr>rotation := wl\<rparr>,
               front_right_wheel := (front_right_wheel self)\<lparr>rotation := wr\<rparr>\<rparr>)"
proof -
  let ?c = "snd (move tm oc self dt line obs)"
  have ex: "\<exists>p r t wl wr.
        ?c = self\<lparr>car_pos := p, car_rotation := r,
               trailer := (trailer self)\<lparr>rotation := t\<rparr>,
               front_left_wheel := (front_left_wheel self)\<lparr>rotation := wl\<rparr>,
               front_right_wheel := (front_right_wheel self)\<lparr>rotation := wr\<rparr>\<rparr>"
  proof -
    from move_car_cases[of tm oc self dt line obs]
    consider "?c = self" | a s where "?c = apply_state a s self" by blast
    then show ?thesis
    proof cases
      case 1
      have "self = self\<lparr>car_pos := car_pos self, car_rotation := car_rotation self,
               trailer := (trailer self)\<lparr>rotation := rotation (trailer self)\<rparr>,
               front_left_wheel :=
                 (front_left_wheel self)\<lparr>rotation := rotation (front_left_wheel self)\<rparr>,
               front_right_wheel :=
                 (front_right_wheel self)\<lparr>rotation := rotation (front_right_wheel self)\<rparr>\<rparr>"
        by simp
      with 1 show ?thesis by metis
    next
      case 2
      obtain s0 s1 s2 s3 where s: "s = (s0, s1, s2, s3)" by (cases s) auto
      have "apply_state a s self = self\<lparr>car_pos := (s0, s1), car_rotation := degrees s2,
               trailer := (trailer self)\<lparr>rotation := degrees (s3 - s2)\<rparr>,
               front_left_wheel := (front_left_wheel self)\<lparr>rotation := degrees a\<rparr>,
               front_right_wheel := (front_right_wheel self)\<lparr>rotation := degrees a\<rparr>\<rparr>"
        by (simp add: s apply_state_def setRotation_def)
      with 2 show ?thesis by metis
    qed
  qed
  then obtain p r t wl wr where
    c: "?c = self\<lparr>car_pos := p, car_rotation := r,
               trailer := (trailer self)\<lparr>rotation := t\<rparr>,
               front_left_wheel := (front_left_wheel self)\<lparr>rotation := wl\<rparr>,
               front_right_wheel := (front_right_wheel self)\<lparr>rotation := wr\<rparr>\<rparr>"
    by blast
  have "get_wheel_base ?c = get_wheel_base self"
    "get_trailer_len ?c = get_trailer_len self"
    "ctrl_point ?c = ctrl_point self" "circle ?c = circle self" "mpc ?c = mpc self"
    by (simp_all add: c get_wheel_base_def get_trailer_len_def)
  with ex show ?thesis by blast
qed

section \<open>Reconfiguring the geometry\<close>

text \<open>
  C9. The geometry accessors round-trip: \<^verbatim>\<open>get_wheel_base()\<close> returns \<open>w\<close> after
  \<^verbatim>\<open>set_wheel_base(w)\<close>, and \<^verbatim>\<open>get_trailer_len()\<close> returns \<open>L\<close> after
  \<^verbatim>\<open>set_trailer_len(L)\<close>. The code stores the value as the width of a rectangle and reads
  that width back, so this holds for every \<open>w\<close> and \<open>L\<close>, the positive ones included.
\<close>

theorem geometry_round_trip:
  "get_wheel_base (set_wheel_base w self) = w
   \<and> get_trailer_len (set_trailer_len L self) = L"
  by (simp add: get_wheel_base_def set_wheel_base_def setWidth_def
      get_trailer_len_def set_trailer_len_def setRect_def)

text \<open>
  C5, as the code has it. A wheel-base or trailer-length change leaves the solver object
  of the car in place; the next \<^verbatim>\<open>predict\<close> calls that same object, and the new geometry
  reaches it as arguments of the call (the trailer length also through the control-point
  offset). The solver object is replaced by \<^verbatim>\<open>rebuild_mpc\<close>, which the caller invokes
  itself.
\<close>

theorem reconfiguration_keeps_solver:
  "mpc (set_wheel_base w self) = mpc self
   \<and> mpc (set_trailer_len L self) = mpc self
   \<and> predict oc (set_wheel_base w self) path obs =
       oc (mpc self) ((predict_args self path obs)\<lparr>arg_wheel_base := w\<rparr>)
   \<and> predict oc (set_trailer_len L self) path obs =
       oc (mpc self)
         ((predict_args self path obs)
            \<lparr>arg_trailer_len := L,
             arg_ctrl_point := (L - fst (pos (ctrl_point self)), snd (pos (ctrl_point self)))\<rparr>)
   \<and> mpc (rebuild_mpc oid cn pl dt st mi sc self) = MPCCasadi oid st mi sc cn pl"
  by (simp add: set_wheel_base_def set_trailer_len_def rebuild_mpc_def predict_def
      predict_args_def current_state_def setPos_def setRect_def setWidth_def Let_def)

text \<open>
  Changing the wheel base or the trailer length of \<open>car0\<close> from 5 to 7 changes the
  geometry and keeps the very same solver object.
\<close>

theorem reconfiguration_counterexample:
  "get_wheel_base (set_wheel_base 7 car0) \<noteq> get_wheel_base car0
   \<and> mpc (set_wheel_base 7 car0) = mpc car0
   \<and> get_trailer_len (set_trailer_len 7 car0) \<noteq> get_trailer_len car0
   \<and> mpc (set_trailer_len 7 car0) = mpc car0"
  by (simp add: set_wheel_base_def set_trailer_len_def get_wheel_base_def get_trailer_len_def
      setWidth_def setRect_def car0_fields)

end
